theory Spec2Isabelle
  imports Main
begin

section \<open>Runtime values\<close>

text \<open>
  The values that \<^verbatim>\<open>me\<close> of \<^verbatim>\<open>src/matchable.ts\<close> meets: the two absent values,
  the three scalar kinds, arrays, records, and the functions that every record inherits
  from \<^verbatim>\<open>Object.prototype\<close>. A record is the list of its own enumerable properties,
  in the order \<^verbatim>\<open>Object.keys\<close> lists them; the keys of a record are distinct, so a
  list that repeats a key stands for no record. An array is the list of its elements.
  \<open>Builtin name\<close> is the function stored in \<^verbatim>\<open>Object.prototype\<close> under that name.
\<close>

subsection \<open>Numbers\<close>

text \<open>
  A finite number is written as the language's \<^verbatim>\<open>Number::toString\<close> sees it: a sign,
  the integer \<open>s\<close> of its significant decimal digits and the position \<open>n\<close> of the
  decimal point, so that its magnitude is \<open>s\<close> times ten to the power \<open>n - k\<close>, where
  \<open>k\<close> is the number of digits of \<open>s\<close>; \<open>s\<close> has as few digits as print the number
  back, so it does not end in zero. Zero has \<open>s = 0\<close>; the two zeros are one.
\<close>

datatype num = NaN | Infinity bool | Finite bool nat int

definition digit_char :: "nat \<Rightarrow> char" where
  "digit_char d = ''0123456789'' ! d"

function nat_str :: "nat \<Rightarrow> string" where
  "nat_str n = (if n < 10 then [digit_char n] else nat_str (n div 10) @ [digit_char (n mod 10)])"
  by pat_completeness auto
termination
  by (relation "measure id") auto

declare nat_str.simps [simp del]

text \<open>\<^verbatim>\<open>Number::toString\<close> in radix ten, as ECMAScript defines it.\<close>

definition exponent_str :: "int \<Rightarrow> string" where
  "exponent_str e = (if e < 0 then CHR ''-'' else CHR ''+'') # nat_str (nat \<bar>e\<bar>)"

definition place_point :: "string \<Rightarrow> int \<Rightarrow> string" where
  "place_point ds n =
     (if int (length ds) \<le> n \<and> n \<le> 21 then ds @ replicate (nat (n - int (length ds))) CHR ''0''
      else if 0 < n \<and> n \<le> 21 then take (nat n) ds @ CHR ''.'' # drop (nat n) ds
      else if - 6 < n \<and> n \<le> 0 then ''0.'' @ replicate (nat (- n)) CHR ''0'' @ ds
      else if length ds = 1 then ds @ CHR ''e'' # exponent_str (n - 1)
      else take 1 ds @ CHR ''.'' # drop 1 ds @ CHR ''e'' # exponent_str (n - 1))"

fun Number_toString :: "num \<Rightarrow> string" where
  "Number_toString NaN = ''NaN''"
| "Number_toString (Infinity neg) = (if neg then ''-Infinity'' else ''Infinity'')"
| "Number_toString (Finite neg s n) =
     (if s = 0 then ''0''
      else if neg then CHR ''-'' # place_point (nat_str s) n
      else place_point (nat_str s) n)"

text \<open>A number is falsy when it is zero or \<^verbatim>\<open>NaN\<close>.\<close>

definition num_truthy :: "num \<Rightarrow> bool" where
  "num_truthy x = (case x of NaN \<Rightarrow> False | Infinity _ \<Rightarrow> True | Finite _ s _ \<Rightarrow> s \<noteq> 0)"

text \<open>
  The number of an integer that a double holds exactly (every integer below \<open>2\<close> to the
  power \<open>53\<close> in magnitude): trailing zeros leave the digits.
\<close>

function strip_zeros :: "nat \<Rightarrow> nat" where
  "strip_zeros s = (if s = 0 \<or> s mod 10 \<noteq> 0 then s else strip_zeros (s div 10))"
  by pat_completeness auto
termination
  by (relation "measure id") auto

declare strip_zeros.simps [simp del]

definition num_of_int :: "int \<Rightarrow> num" where
  "num_of_int i =
     (if i = 0 then Finite False 0 0
      else Finite (i < 0) (strip_zeros (nat \<bar>i\<bar>)) (int (length (nat_str (nat \<bar>i\<bar>)))))"

subsection \<open>Values\<close>

datatype val =
    Undefined
  | Null
  | Bool bool
  | Num num
  | Str string
  | Arr "val list"
  | Obj "(string \<times> val) list"
  | Builtin string

text \<open>\<^verbatim>\<open>v == null\<close>: true of \<^verbatim>\<open>null\<close> and \<^verbatim>\<open>undefined\<close> only.\<close>

fun nullish :: "val \<Rightarrow> bool" where
  "nullish Undefined = True"
| "nullish Null = True"
| "nullish _ = False"

text \<open>\<^verbatim>\<open>!v\<close> is \<open>\<not> truthy v\<close>.\<close>

fun truthy :: "val \<Rightarrow> bool" where
  "truthy Undefined = False"
| "truthy Null = False"
| "truthy (Bool b) = b"
| "truthy (Num x) = num_truthy x"
| "truthy (Str s) = (s \<noteq> [])"
| "truthy (Arr _) = True"
| "truthy (Obj _) = True"
| "truthy (Builtin _) = True"

fun typeof :: "val \<Rightarrow> string" where
  "typeof Undefined = ''undefined''"
| "typeof Null = ''object''"
| "typeof (Bool _) = ''boolean''"
| "typeof (Num _) = ''number''"
| "typeof (Str _) = ''string''"
| "typeof (Arr _) = ''object''"
| "typeof (Obj _) = ''object''"
| "typeof (Builtin _) = ''function''"

text \<open>
  \<^verbatim>\<open>String(v)\<close>, which is also the property key that \<^verbatim>\<open>v in h\<close> and \<^verbatim>\<open>h[v]\<close>
  read \<open>v\<close> as. For an array, a record or a function the conversion runs the value's own
  \<^verbatim>\<open>toString\<close> or \<^verbatim>\<open>valueOf\<close>; that is left out, the result is \<open>None\<close>.
\<close>

fun to_key :: "val \<Rightarrow> string option" where
  "to_key Undefined = Some ''undefined''"
| "to_key Null = Some ''null''"
| "to_key (Bool b) = Some (if b then ''true'' else ''false'')"
| "to_key (Num x) = Some (Number_toString x)"
| "to_key (Str s) = Some s"
| "to_key _ = None"

subsection \<open>Own and inherited properties\<close>

text \<open>The own enumerable properties, as \<^verbatim>\<open>{...v}\<close> and \<^verbatim>\<open>Object.keys(v)\<close> see them.\<close>

fun own_props :: "val \<Rightarrow> (string \<times> val) list" where
  "own_props (Obj kvs) = kvs"
| "own_props (Arr xs) = zip (map nat_str [0..<length xs]) xs"
| "own_props _ = []"

definition Object_keys :: "val \<Rightarrow> string list" where
  "Object_keys v = map fst (own_props v)"

text \<open>
  What an object literal inherits from \<^verbatim>\<open>Object.prototype\<close>: eleven functions, and
  the accessor \<^verbatim>\<open>__proto__\<close>, whose getter returns \<^verbatim>\<open>Object.prototype\<close> itself,
  an object without enumerable properties.
\<close>

definition prototype_functions :: "string list" where
  "prototype_functions =
     [''constructor'', ''__defineGetter__'', ''__defineSetter__'', ''hasOwnProperty'',
      ''__lookupGetter__'', ''__lookupSetter__'', ''isPrototypeOf'', ''propertyIsEnumerable'',
      ''toString'', ''valueOf'', ''toLocaleString'']"

definition inherited :: "string \<Rightarrow> val option" where
  "inherited k =
     (if k \<in> set prototype_functions then Some (Builtin k)
      else if k = ''__proto__'' then Some (Obj [])
      else None)"

text \<open>
  \<^verbatim>\<open>value[k]\<close> on a record given by its own properties: the own property, or else the
  inherited one, or else \<^verbatim>\<open>undefined\<close>.
\<close>

definition get :: "(string \<times> val) list \<Rightarrow> string \<Rightarrow> val" where
  "get value k =
     (case map_of value k of
        Some x \<Rightarrow> x
      | None \<Rightarrow> (case inherited k of Some x \<Rightarrow> x | None \<Rightarrow> Undefined))"

section \<open>The five matchers\<close>

text \<open>
  Each matcher of the source is an object of closures over what its constructor was given.
  The model keeps what is captured; every method is a function of it further down. The
  methods of the discriminated and the object matcher are modelled for a wrapped record.
\<close>

datatype matcher =
    emptyMatchable
  | matchableEnum val
  | matchableUnion val
  | matchableDisc val string
  | matchableObj val

fun recognizer :: "matcher \<Rightarrow> string" where
  "recognizer emptyMatchable = ''empty''"
| "recognizer (matchableEnum _) = ''enum''"
| "recognizer (matchableUnion _) = ''union''"
| "recognizer (matchableDisc _ _) = ''disc''"
| "recognizer (matchableObj _) = ''object''"

subsection \<open>The public constructor\<close>

text \<open>\<^verbatim>\<open>/^[A-Z]/.test(key)\<close>: the first character lies between \<^verbatim>\<open>A\<close> (65) and \<^verbatim>\<open>Z\<close> (90).\<close>

fun starts_upper :: "string \<Rightarrow> bool" where
  "starts_upper [] = False"
| "starts_upper (c # _) = ((65::nat) \<le> of_char c \<and> of_char c \<le> (90::nat))"

text \<open>\<^verbatim>\<open>me\<close>, lines 500 to 519.\<close>

definition me :: "val \<Rightarrow> matcher" where
  "me v =
     (if nullish v then emptyMatchable
      else if typeof v \<in> set [''string'', ''number'', ''boolean''] then matchableEnum v
      else
        (let keys = Object_keys v;
             key = (case keys of [] \<Rightarrow> None | k # _ \<Rightarrow> Some k)
         in if length keys = 1 \<and> (case key of None \<Rightarrow> False | Some k \<Rightarrow> starts_upper k)
            then matchableUnion v
            else matchableObj v))"

subsection \<open>Handler maps\<close>

text \<open>
  A handler map is an object literal whose properties hold handlers. A property may
  also hold a value that is not a handler (\<^verbatim>\<open>Partial\<close> admits \<^verbatim>\<open>undefined\<close>), so
  a slot is a handler or a plain value. Like every object literal the map inherits from
  \<^verbatim>\<open>Object.prototype\<close>, and \<^verbatim>\<open>k in h\<close> and \<^verbatim>\<open>h[k]\<close> see what it inherits.
\<close>

datatype 'r slot = Fn "val \<Rightarrow> 'r" | Plain val

type_synonym 'r handlers = "(string \<times> 'r slot) list"

datatype error = TypeError | Error string

text \<open>
  What a call of \<^verbatim>\<open>match\<close> comes to: it throws, or returns what the handler returned,
  or has called a function of \<^verbatim>\<open>Object.prototype\<close> (named, with the argument it was
  given) whose result is not modelled, or has converted a value that is not a scalar to
  a property key, which is not modelled either.
\<close>

datatype ('a, 'r) outcome = Throw error | Return 'r | Called string 'a | Outside

text \<open>\<^verbatim>\<open>k in h\<close>\<close>

definition has_key :: "(string \<times> 'a) list \<Rightarrow> string \<Rightarrow> bool" where
  "has_key h k = (k \<in> set (map fst h) \<or> inherited k \<noteq> None)"

text \<open>\<^verbatim>\<open>h[k]\<close>; \<open>None\<close> is \<^verbatim>\<open>undefined\<close> read from a missing property.\<close>

definition slot_at :: "'r handlers \<Rightarrow> string \<Rightarrow> 'r slot option" where
  "slot_at h k = (case map_of h k of Some s \<Rightarrow> Some s | None \<Rightarrow> map_option Plain (inherited k))"

fun nullish_slot :: "'r slot option \<Rightarrow> bool" where
  "nullish_slot None = True"
| "nullish_slot (Some (Plain v)) = nullish v"
| "nullish_slot (Some (Fn _)) = False"

fun truthy_slot :: "'r slot option \<Rightarrow> bool" where
  "truthy_slot None = False"
| "truthy_slot (Some (Plain v)) = truthy v"
| "truthy_slot (Some (Fn _)) = True"

text \<open>\<^verbatim>\<open>fn(x)\<close>; calling what is not a function throws a \<^verbatim>\<open>TypeError\<close>.\<close>

fun invoke :: "'r slot option \<Rightarrow> val \<Rightarrow> (val, 'r) outcome" where
  "invoke (Some (Fn f)) x = Return (f x)"
| "invoke (Some (Plain (Builtin name))) x = Called name x"
| "invoke _ x = Throw TypeError"

subsection \<open>Empty matcher\<close>

text \<open>
  Modelled from the spec: \<^verbatim>\<open>K\<close> of \<^verbatim>\<open>comb.js\<close>, which is not among the sources;
  the spec names it the constant-producer, a combinator that returns a fixed value.
\<close>

definition K :: "'a \<Rightarrow> 'b \<Rightarrow> 'a" where
  "K x = (\<lambda>_. x)"

text \<open>
  \<^verbatim>\<open>match: K(null)\<close>, line 214. A result that may be \<^verbatim>\<open>null\<close> because no handler
  ran is an option, \<open>None\<close> being that \<^verbatim>\<open>null\<close>.
\<close>

definition empty_match :: "'r handlers \<Rightarrow> 'r option" where
  "empty_match = K None"

subsection \<open>Enum matcher\<close>

text \<open>\<^verbatim>\<open>matchableEnum(value).match\<close>, lines 68 to 74.\<close>

definition enum_match :: "val \<Rightarrow> 'r handlers \<Rightarrow> (val, 'r) outcome" where
  "enum_match value h =
     (let k = (if typeof value = ''boolean'' then map_option Str (to_key value) else Some value)
      in case Option.bind k to_key of
           None \<Rightarrow> Outside
         | Some key \<Rightarrow>
             (let handler = (if has_key h key then slot_at h key else slot_at h ''_'')
              in invoke handler value))"

subsection \<open>Union matcher\<close>

text \<open>\<^verbatim>\<open>Object.keys(src)[0]\<close> and \<^verbatim>\<open>src[tag]\<close>, lines 148 and 149.\<close>

definition union_tag :: "val \<Rightarrow> val" where
  "union_tag src = (case Object_keys src of [] \<Rightarrow> Undefined | k # _ \<Rightarrow> Str k)"

definition tag_key :: "val \<Rightarrow> string" where
  "tag_key src = (case Object_keys src of [] \<Rightarrow> ''undefined'' | k # _ \<Rightarrow> k)"

definition union_payload :: "val \<Rightarrow> val" where
  "union_payload src = get (own_props src) (tag_key src)"

text \<open>\<^verbatim>\<open>match\<close>, lines 156 to 161: \<^verbatim>\<open>h[tag] ?? h._\<close>, called with the payload.\<close>

definition union_match :: "val \<Rightarrow> 'r handlers \<Rightarrow> (val, 'r) outcome" where
  "union_match src h =
     (let fn = (if nullish_slot (slot_at h (tag_key src)) then slot_at h ''_''
                else slot_at h (tag_key src))
      in invoke fn (union_payload src))"

text \<open>\<^verbatim>\<open>arr.includes(tag)\<close>; the tags asked for are property names.\<close>

definition union_in :: "val \<Rightarrow> string list \<Rightarrow> bool" where
  "union_in src arr = (union_tag src \<in> set (map Str arr))"

text \<open>
  \<^verbatim>\<open>isEqual\<close> is the package fast-deep-equal: strict equality on scalars, arrays
  element by element, records key by key, an array never equal to a record.
\<close>

fun isEqual :: "val \<Rightarrow> val \<Rightarrow> bool" where
  "isEqual (Arr xs) (Arr ys) = (length xs = length ys \<and> list_all2 isEqual xs ys)"
| "isEqual (Obj a) (Obj b) =
     (length a = length b \<and>
      list_all (\<lambda>k. k \<in> set (map fst b)) (map fst a) \<and>
      list_all (\<lambda>(k, x). case map_of b k of None \<Rightarrow> False | Some y \<Rightarrow> isEqual x y) a)"
| "isEqual a b = (a = b)"

text \<open>\<^verbatim>\<open>into\<close> and \<^verbatim>\<open>catch\<close>, lines 181 to 199.\<close>

definition union_into :: "val \<Rightarrow> (val \<Rightarrow> 'r) \<Rightarrow> 'r option" where
  "union_into src fn =
     (let v = union_payload src
      in if \<not> nullish v \<and> \<not> isEqual v (Arr []) then Some (fn v) else None)"

definition union_catch :: "val \<Rightarrow> string list \<Rightarrow> (val \<Rightarrow> 'r) \<Rightarrow> 'r option" where
  "union_catch src arr_branch fn =
     (let v = union_payload src
      in if union_in src arr_branch \<and> \<not> nullish v \<and> \<not> isEqual v (Arr [])
         then Some (fn v) else None)"

subsection \<open>Discriminated matcher\<close>

text \<open>\<^verbatim>\<open>_disc_key\<close>, lines 288 to 290.\<close>

definition disc_key :: "val \<Rightarrow> val" where
  "disc_key v = (case v of Bool b \<Rightarrow> Str (if b then ''true'' else ''false'') | _ \<Rightarrow> v)"

text \<open>
  \<^verbatim>\<open>_disc_payload\<close>, lines 292 to 296:
  \<^verbatim>\<open>const out = { ...obj }; delete out[key]; return out\<close>
\<close>

definition disc_payload :: "(string \<times> val) list \<Rightarrow> string \<Rightarrow> val" where
  "disc_payload obj key = Obj (filter (\<lambda>kv. fst kv \<noteq> key) obj)"

text \<open>\<^verbatim>\<open>const tag = value[key]\<close>, line 326.\<close>

definition disc_tag :: "(string \<times> val) list \<Rightarrow> string \<Rightarrow> val" where
  "disc_tag value key = get value key"

text \<open>The message of the error thrown at lines 341 to 343.\<close>

definition no_handler :: "string \<Rightarrow> string \<Rightarrow> string" where
  "no_handler key tag = ''match(): no handler for key='' @ key @ '' tag='' @ tag"

text \<open>\<^verbatim>\<open>match\<close>, lines 334 to 350.\<close>

definition disc_match :: "(string \<times> val) list \<Rightarrow> string \<Rightarrow> 'r handlers \<Rightarrow> (val, 'r) outcome" where
  "disc_match value key h =
     (let t = disc_tag value key;
          rk = (if nullish t then Null else disc_key t)
      in case to_key rk of
           None \<Rightarrow> Outside
         | Some k \<Rightarrow>
             (let has = (\<not> nullish rk \<and> has_key h k);
                  fn = (if has then slot_at h k else slot_at h ''_'')
              in if \<not> truthy_slot fn then Throw (Error (no_handler key k))
                 else if has then invoke fn (disc_payload value key)
                 else invoke fn (Obj value)))"

subsection \<open>Object matcher\<close>

text \<open>
  \<^verbatim>\<open>picked[k] = x\<close>, an assignment: under \<^verbatim>\<open>__proto__\<close> it runs the setter that
  \<^verbatim>\<open>picked\<close> inherits and defines no own property.
\<close>

fun define_prop :: "(string \<times> val) list \<Rightarrow> string \<Rightarrow> val \<Rightarrow> (string \<times> val) list" where
  "define_prop [] k x = [(k, x)]"
| "define_prop ((k', x') # kvs) k x =
     (if k' = k then (k, x) # kvs else (k', x') # define_prop kvs k x)"

definition set_prop :: "(string \<times> val) list \<Rightarrow> string \<Rightarrow> val \<Rightarrow> (string \<times> val) list" where
  "set_prop kvs k x = (if k = ''__proto__'' then kvs else define_prop kvs k x)"

text \<open>\<^verbatim>\<open>for (const k of keys) picked[k] = value[k]\<close>\<close>

fun pick :: "(string \<times> val) list \<Rightarrow> string list \<Rightarrow> (string \<times> val) list \<Rightarrow> (string \<times> val) list" where
  "pick value [] picked = picked"
| "pick value (k # keys) picked = pick value keys (set_prop picked k (get value k))"

text \<open>\<^verbatim>\<open>catch\<close>, lines 424 to 431.\<close>

definition obj_catch :: "(string \<times> val) list \<Rightarrow> string list \<Rightarrow> (val \<Rightarrow> 'r) \<Rightarrow> 'r option" where
  "obj_catch value keys fn =
     (if list_ex (\<lambda>k. nullish (get value k)) keys then None
      else Some (fn (Obj (pick value keys []))))"

text \<open>\<^verbatim>\<open>as\<close> and \<^verbatim>\<open>match(key, handlers)\<close>, lines 433 to 439.\<close>

definition obj_as :: "(string \<times> val) list \<Rightarrow> string \<Rightarrow> matcher" where
  "obj_as value key = matchableDisc (Obj value) key"

definition obj_match :: "(string \<times> val) list \<Rightarrow> string \<Rightarrow> 'r handlers \<Rightarrow> (val, 'r) outcome" where
  "obj_match value key handlers = disc_match value key handlers"

section \<open>The discriminated matcher over a store\<close>

text \<open>
  Whether \<^verbatim>\<open>_disc_payload\<close> writes to the record it is given depends on which object
  \<^verbatim>\<open>delete\<close> acts on, so here records live in a store: an address holds the own
  properties of one record, and a property holds a reference or an immediate value.
  \<^verbatim>\<open>{ ...obj }\<close> allocates, \<^verbatim>\<open>delete out[key]\<close> writes the store at the address of
  \<^verbatim>\<open>out\<close>. The wrapped value is a record, held by reference or as an immediate
  record; an immediate value is otherwise a scalar. Handlers read the store; what a
  handler writes is its caller's doing and not part of the matcher.
\<close>

datatype sval = Imm val | Ref nat

record store =
  heap :: "nat \<Rightarrow> (string \<times> sval) list option"
  fresh :: nat

datatype 'r st_slot = StFn "sval \<Rightarrow> store \<Rightarrow> 'r" | StPlain val

type_synonym 'r st_handlers = "(string \<times> 'r st_slot) list"

fun st_nullish :: "sval \<Rightarrow> bool" where
  "st_nullish (Imm x) = nullish x"
| "st_nullish (Ref _) = False"

fun st_to_key :: "sval \<Rightarrow> string option" where
  "st_to_key (Imm x) = to_key x"
| "st_to_key (Ref _) = None"

fun st_own_props :: "store \<Rightarrow> sval \<Rightarrow> (string \<times> sval) list" where
  "st_own_props s (Ref a) = (case heap s a of None \<Rightarrow> [] | Some kvs \<Rightarrow> kvs)"
| "st_own_props s (Imm x) = map (\<lambda>kv. (fst kv, Imm (snd kv))) (own_props x)"

definition st_get :: "store \<Rightarrow> sval \<Rightarrow> string \<Rightarrow> sval" where
  "st_get s v k =
     (case map_of (st_own_props s v) k of
        Some x \<Rightarrow> x
      | None \<Rightarrow> (case inherited k of Some y \<Rightarrow> Imm y | None \<Rightarrow> Imm Undefined))"

fun st_disc_key :: "sval \<Rightarrow> sval" where
  "st_disc_key (Imm x) = Imm (disc_key x)"
| "st_disc_key (Ref a) = Ref a"

text \<open>\<^verbatim>\<open>const out = { ...obj }\<close>\<close>

definition st_spread :: "store \<Rightarrow> sval \<Rightarrow> sval \<times> store" where
  "st_spread s obj =
     (Ref (fresh s),
      s\<lparr>heap := (heap s)(fresh s \<mapsto> st_own_props s obj), fresh := Suc (fresh s)\<rparr>)"

text \<open>\<^verbatim>\<open>delete out[key]\<close>\<close>

fun st_delete :: "store \<Rightarrow> sval \<Rightarrow> string \<Rightarrow> store" where
  "st_delete s (Ref a) key =
     (case heap s a of
        None \<Rightarrow> s
      | Some kvs \<Rightarrow> s\<lparr>heap := (heap s)(a \<mapsto> filter (\<lambda>kv. fst kv \<noteq> key) kvs)\<rparr>)"
| "st_delete s (Imm _) key = s"

definition st_disc_payload :: "store \<Rightarrow> sval \<Rightarrow> string \<Rightarrow> sval \<times> store" where
  "st_disc_payload s obj key =
     (let (out, s1) = st_spread s obj;
          s2 = st_delete s1 out key
      in (out, s2))"

definition st_slot_at :: "'r st_handlers \<Rightarrow> string \<Rightarrow> 'r st_slot option" where
  "st_slot_at h k =
     (case map_of h k of Some x \<Rightarrow> Some x | None \<Rightarrow> map_option StPlain (inherited k))"

fun st_truthy_slot :: "'r st_slot option \<Rightarrow> bool" where
  "st_truthy_slot None = False"
| "st_truthy_slot (Some (StPlain v)) = truthy v"
| "st_truthy_slot (Some (StFn _)) = True"

fun st_invoke :: "'r st_slot option \<Rightarrow> sval \<Rightarrow> store \<Rightarrow> (sval, 'r) outcome" where
  "st_invoke (Some (StFn f)) x s = Return (f x s)"
| "st_invoke (Some (StPlain (Builtin name))) x s = Called name x"
| "st_invoke _ x s = Throw TypeError"

text \<open>
  What \<^verbatim>\<open>matchableDisc(value, key)\<close> captures; the tag is read once, when the matcher
  is built.
\<close>

record disc_matcher =
  m_key :: string
  m_value :: sval
  m_tag :: sval

definition st_matchableDisc :: "store \<Rightarrow> sval \<Rightarrow> string \<Rightarrow> disc_matcher" where
  "st_matchableDisc s value key = \<lparr>m_key = key, m_value = value, m_tag = st_get s value key\<rparr>"

definition st_disc_match ::
  "store \<Rightarrow> disc_matcher \<Rightarrow> 'r st_handlers \<Rightarrow> (sval, 'r) outcome \<times> store" where
  "st_disc_match s m h =
     (let t = m_tag m;
          rk = (if st_nullish t then Imm Null else st_disc_key t)
      in case st_to_key rk of
           None \<Rightarrow> (Outside, s)
         | Some k \<Rightarrow>
             (let has = (\<not> st_nullish rk \<and> has_key h k);
                  fn = (if has then st_slot_at h k else st_slot_at h ''_'')
              in if \<not> st_truthy_slot fn then (Throw (Error (no_handler (m_key m) k)), s)
                 else if has then
                   (let (p, s') = st_disc_payload s (m_value m) (m_key m)
                    in (st_invoke fn p s', s'))
                 else (st_invoke fn (m_value m) s, s)))"

definition st_disc_into :: "store \<Rightarrow> disc_matcher \<Rightarrow> (sval \<Rightarrow> store \<Rightarrow> 'r) \<Rightarrow> 'r option \<times> store" where
  "st_disc_into s m fn =
     (if st_nullish (m_tag m) then (None, s)
      else (let (p, s') = st_disc_payload s (m_value m) (m_key m) in (Some (fn p s'), s')))"

definition st_disc_catch ::
  "store \<Rightarrow> disc_matcher \<Rightarrow> sval list \<Rightarrow> (sval \<Rightarrow> store \<Rightarrow> 'r) \<Rightarrow> 'r option \<times> store" where
  "st_disc_catch s m arr_branch fn =
     (if st_nullish (m_tag m) then (None, s)
      else if m_tag m \<notin> set arr_branch then (None, s)
      else (let (p, s') = st_disc_payload s (m_value m) (m_key m) in (Some (fn p s'), s')))"

text \<open>A sequence of calls on one discriminated matcher, and the store it leaves.\<close>

datatype 'r disc_call =
    Match "'r st_handlers"
  | Into "sval \<Rightarrow> store \<Rightarrow> 'r"
  | Catch "sval list" "sval \<Rightarrow> store \<Rightarrow> 'r"

fun st_call :: "store \<Rightarrow> disc_matcher \<Rightarrow> 'r disc_call \<Rightarrow> store" where
  "st_call s m (Match h) = snd (st_disc_match s m h)"
| "st_call s m (Into fn) = snd (st_disc_into s m fn)"
| "st_call s m (Catch arr fn) = snd (st_disc_catch s m arr fn)"

fun st_calls :: "store \<Rightarrow> disc_matcher \<Rightarrow> 'r disc_call list \<Rightarrow> store" where
  "st_calls s m [] = s"
| "st_calls s m (c # cs) = st_calls (st_call s m c) m cs"

text \<open>
  Reading a stored value back as a value of the first model, one level deep, and a
  handler of the first model as a handler over the store; they relate the two models on
  records held as immediate values.
\<close>

fun unref :: "sval \<Rightarrow> val" where
  "unref (Imm x) = x"
| "unref (Ref _) = Undefined"

fun read1 :: "store \<Rightarrow> sval \<Rightarrow> val" where
  "read1 s (Imm x) = x"
| "read1 s (Ref a) = Obj (map (\<lambda>kv. (fst kv, unref (snd kv))) (st_own_props s (Ref a)))"

fun lift_slot :: "'r slot \<Rightarrow> 'r st_slot" where
  "lift_slot (Fn f) = StFn (\<lambda>p s. f (read1 s p))"
| "lift_slot (Plain v) = StPlain v"

definition lift_handlers :: "'r handlers \<Rightarrow> 'r st_handlers" where
  "lift_handlers h = map (\<lambda>kv. (fst kv, lift_slot (snd kv))) h"

fun read_outcome :: "store \<Rightarrow> (sval, 'r) outcome \<Rightarrow> (val, 'r) outcome" where
  "read_outcome s (Called name x) = Called name (read1 s x)"
| "read_outcome s (Throw e) = Throw e"
| "read_outcome s (Return r) = Return r"
| "read_outcome s Outside = Outside"

section \<open>Basic facts\<close>

lemma nullish_iff: "nullish v \<longleftrightarrow> v = Null \<or> v = Undefined"
  by (cases v) simp_all

lemma inherited_underscore: "inherited ''_'' = None"
  by (simp add: inherited_def prototype_functions_def)

lemma inherited_upper: "starts_upper k \<Longrightarrow> inherited k = None"
  by (cases k) (auto simp: inherited_def prototype_functions_def)

lemma get_own: "map_of value k = Some x \<Longrightarrow> get value k = x"
  by (simp add: get_def)

lemma nat_str_digit: "n < 10 \<Longrightarrow> nat_str n = [digit_char n]"
  by (simp add: nat_str.simps)

lemma nat_str_0: "nat_str 0 = ''0''"
  by (simp add: nat_str_digit digit_char_def)

lemma starts_upper_iff:
  "starts_upper k \<longleftrightarrow> (\<exists>c cs. k = c # cs \<and> c \<in> set ''ABCDEFGHIJKLMNOPQRSTUVWXYZ'')"
proof (cases k)
  case Nil
  then show ?thesis by simp
next
  case (Cons c cs)
  have "((65::nat) \<le> of_char c \<and> of_char c \<le> (90::nat)) \<longleftrightarrow> c \<in> set ''ABCDEFGHIJKLMNOPQRSTUVWXYZ''"
  proof
    assume a: "(65::nat) \<le> of_char c \<and> of_char c \<le> (90::nat)"
    define n :: nat where "n = of_char c"
    have c: "c = char_of n" by (simp add: n_def)
    from a have "n = 65 \<or> n = 66 \<or> n = 67 \<or> n = 68 \<or> n = 69 \<or> n = 70 \<or> n = 71 \<or> n = 72 \<or> n = 73
        \<or> n = 74 \<or> n = 75 \<or> n = 76 \<or> n = 77 \<or> n = 78 \<or> n = 79 \<or> n = 80 \<or> n = 81 \<or> n = 82
        \<or> n = 83 \<or> n = 84 \<or> n = 85 \<or> n = 86 \<or> n = 87 \<or> n = 88 \<or> n = 89 \<or> n = 90"
      unfolding n_def [symmetric] by arith
    then show "c \<in> set ''ABCDEFGHIJKLMNOPQRSTUVWXYZ''"
      unfolding c by (elim disjE; hypsubst; code_simp)
  next
    assume "c \<in> set ''ABCDEFGHIJKLMNOPQRSTUVWXYZ''"
    then show "(65::nat) \<le> of_char c \<and> of_char c \<le> (90::nat)"
      by auto
  qed
  with Cons show ?thesis by simp
qed

section \<open>Classification\<close>

lemma me_Arr: "me (Arr xs) = matchableObj (Arr xs)"
proof (cases "length xs = 1")
  case True
  then obtain x where "xs = [x]" by (cases xs) auto
  then show ?thesis
    by (simp add: me_def Object_keys_def nat_str_0)
next
  case False
  then show ?thesis
    by (simp add: me_def Object_keys_def Let_def)
qed

lemma me_Obj:
  "me (Obj kvs) = (if (\<exists>c cs x. kvs = [(c # cs, x)] \<and> c \<in> set ''ABCDEFGHIJKLMNOPQRSTUVWXYZ'')
     then matchableUnion (Obj kvs) else matchableObj (Obj kvs))"
proof (cases kvs)
  case Nil
  then show ?thesis by (simp add: me_def Object_keys_def)
next
  case (Cons kv rest)
  obtain k x where kv: "kv = (k, x)" by (cases kv)
  show ?thesis
  proof (cases rest)
    case Nil
    with Cons kv show ?thesis
      using starts_upper_iff [of k]
      by (auto simp: me_def Object_keys_def)
  next
    case (Cons a list)
    with \<open>kvs = kv # rest\<close> show ?thesis
      by (simp add: me_def Object_keys_def)
  qed
qed

text \<open>
  C1: \<^verbatim>\<open>me\<close> gives every value exactly one shape. \<^verbatim>\<open>null\<close> and \<^verbatim>\<open>undefined\<close> give the
  empty matcher; a string, number or boolean gives an enum matcher holding that value; a
  record with exactly one field whose name starts with one of the letters A to Z gives a
  union (variant) matcher; every other record, and every array, gives a plain object
  matcher. \<^verbatim>\<open>me\<close> itself never builds a discriminated matcher.
\<close>

theorem me_classifies:
  "me v =
     (if v = Null \<or> v = Undefined then emptyMatchable
      else if (\<exists>s. v = Str s) \<or> (\<exists>n. v = Num n) \<or> (\<exists>b. v = Bool b) then matchableEnum v
      else if (\<exists>c cs x. v = Obj [(c # cs, x)] \<and> c \<in> set ''ABCDEFGHIJKLMNOPQRSTUVWXYZ'')
        then matchableUnion v
      else matchableObj v)
   \<and> recognizer (me v) \<in> {''empty'', ''enum'', ''union'', ''object''}"
proof (cases v)
  case (Arr xs)
  then show ?thesis by (simp add: me_Arr)
next
  case (Obj kvs)
  then show ?thesis by (simp add: me_Obj)
qed (simp_all add: me_def Object_keys_def)

text \<open>
  The spec's examples: \<^verbatim>\<open>{A:1}\<close> is a variant; \<^verbatim>\<open>{"":1}\<close>, \<^verbatim>\<open>{"1":2}\<close>,
  \<^verbatim>\<open>{foo:1}\<close> and \<^verbatim>\<open>{Foo:1, bar:2}\<close> are plain objects.
\<close>

theorem me_classifies_witness:
  "me (Obj [(''A'', Num (num_of_int 1))]) = matchableUnion (Obj [(''A'', Num (num_of_int 1))])
   \<and> me (Obj [([], Num (num_of_int 1))]) = matchableObj (Obj [([], Num (num_of_int 1))])
   \<and> me (Obj [(''1'', Num (num_of_int 2))]) = matchableObj (Obj [(''1'', Num (num_of_int 2))])
   \<and> me (Obj [(''foo'', Num (num_of_int 1))]) = matchableObj (Obj [(''foo'', Num (num_of_int 1))])
   \<and> me (Obj [(''Foo'', Num (num_of_int 1)), (''bar'', Num (num_of_int 2))])
       = matchableObj (Obj [(''Foo'', Num (num_of_int 1)), (''bar'', Num (num_of_int 2))])
   \<and> me (Str ''loading'') = matchableEnum (Str ''loading'')
   \<and> me Undefined = emptyMatchable"
  using me_classifies [of "Obj [(''A'', Num (num_of_int 1))]"]
    me_classifies [of "Obj [([], Num (num_of_int 1))]"]
    me_classifies [of "Obj [(''1'', Num (num_of_int 2))]"]
    me_classifies [of "Obj [(''foo'', Num (num_of_int 1))]"]
    me_classifies [of "Obj [(''Foo'', Num (num_of_int 1)), (''bar'', Num (num_of_int 2))]"]
    me_classifies [of "Str ''loading''"] me_classifies [of Undefined]
  by simp

section \<open>Empty matcher\<close>

text \<open>
  C2, as the spec states it, fails: on the empty matcher \<^verbatim>\<open>match({_: () => "X"})\<close> does
  not return \<^verbatim>\<open>"X"\<close>.
\<close>

theorem empty_match_counterexample:
  "me Null = emptyMatchable \<and> empty_match [(''_'', Fn (K ''X''))] \<noteq> Some ''X''"
  by (simp add: me_def empty_match_def K_def)

text \<open>
  C2, amended: classifying \<^verbatim>\<open>null\<close> or \<^verbatim>\<open>undefined\<close> gives the empty matcher, and its
  \<^verbatim>\<open>match\<close> returns \<^verbatim>\<open>null\<close> for every handler map, whether or not the map has a
  default handler under \<^verbatim>\<open>_\<close>; no handler's result is returned.
\<close>

theorem empty_match_null:
  "me Null = emptyMatchable \<and> me Undefined = emptyMatchable \<and> empty_match h = None"
  by (simp add: me_def empty_match_def K_def)

section \<open>Discriminated matcher\<close>

lemma disc_key_not_nullish: "\<not> nullish v \<Longrightarrow> \<not> nullish (disc_key v)"
  by (cases v) (simp_all add: disc_key_def)

lemma disc_key_scalar:
  "disc_key (Bool b) = Str (if b then ''true'' else ''false'')"
  "disc_key (Str s) = Str s"
  "disc_key (Num n) = Num n"
  by (simp_all add: disc_key_def)

lemma slot_at_own: "map_of h k = Some x \<Longrightarrow> slot_at h k = Some x"
  by (simp add: slot_at_def)

lemma has_key_own: "map_of h k = Some x \<Longrightarrow> has_key h k"
  by (auto simp: has_key_def dest: map_of_SomeD intro: rev_image_eqI)

lemma slot_at_underscore: "slot_at h ''_'' = map_of h ''_''"
  by (simp add: slot_at_def inherited_underscore split: option.splits)

lemma slot_at_missing: "\<not> has_key h k \<Longrightarrow> slot_at h k = None"
  by (auto simp: has_key_def slot_at_def map_of_eq_None_iff split: option.splits)

text \<open>
  A tag that is a scalar, with its own handler in the map: the handler receives the bare
  payload.
\<close>

lemma disc_match_hit:
  assumes "\<not> nullish (get value key)"
    and "to_key (disc_key (get value key)) = Some k"
    and "map_of h k = Some (Fn f)"
  shows "disc_match value key h = Return (f (disc_payload value key))"
  using assms disc_key_not_nullish [of "get value key"]
  by (simp add: disc_match_def disc_tag_def Let_def slot_at_own has_key_own)

text \<open>
  A tag that is absent, or whose key \<^verbatim>\<open>in\<close> does not find in the map, own or
  inherited: the default handler receives the full record.
\<close>

lemma disc_match_default:
  assumes "nullish (get value key) \<or> (to_key (disc_key (get value key)) = Some k \<and> \<not> has_key h k)"
    and "map_of h ''_'' = Some (Fn d)"
  shows "disc_match value key h = Return (d (Obj value))"
  using assms
  by (auto simp: disc_match_def disc_tag_def Let_def slot_at_underscore)

text \<open>When \<^verbatim>\<open>in\<close> finds nothing and there is no default, the error is thrown.\<close>

lemma disc_match_throws:
  assumes "rk = (if nullish (get value key) then Null else disc_key (get value key))"
    and "to_key rk = Some k"
    and "nullish rk \<or> \<not> has_key h k"
    and "map_of h ''_'' = None"
  shows "disc_match value key h
           = Throw (Error (''match(): no handler for key='' @ key @ '' tag='' @ k))"
  using assms(2-4) unfolding disc_match_def disc_tag_def assms(1) [symmetric] Let_def
  by (auto simp: slot_at_underscore no_handler_def)

lemma map_of_without:
  "map_of (filter (\<lambda>kv. fst kv \<noteq> key) kvs) k = (if k = key then None else map_of kvs k)"
  by (induction kvs) auto

text \<open>
  C3 holds of the code only as long as the tag's key is not a name that every object
  inherits. With the tags \<^verbatim>\<open>"a"\<close> and \<^verbatim>\<open>true\<close> and handlers that return their
  argument, the handler under the tag receives the bare payload and the default handler
  the full record. With the tag \<^verbatim>\<open>"toString"\<close> and the handler map \<^verbatim>\<open>{_: d}\<close>, the
  map holds no handler for the tag and the default handler exists, yet
  \<^verbatim>\<open>"toString" in h\<close> is true: the code calls \<^verbatim>\<open>Object.prototype.toString\<close> with
  the bare payload, and the default handler, which the claim says receives the full
  record, is never called.
\<close>

theorem disc_match_inherited_tag:
  "disc_match [(''kind'', Str ''a''), (''x'', Num (num_of_int 1))] ''kind''
       [(''a'', Fn id), (''_'', Fn (K Null))]
     = Return (Obj [(''x'', Num (num_of_int 1))])
   \<and> disc_match [(''kind'', Str ''a''), (''x'', Num (num_of_int 1))] ''kind''
       [(''b'', Fn (K Null)), (''_'', Fn id)]
     = Return (Obj [(''kind'', Str ''a''), (''x'', Num (num_of_int 1))])
   \<and> disc_match [(''flag'', Bool True), (''x'', Num (num_of_int 9))] ''flag''
       [(''true'', Fn id), (''_'', Fn (K Null))]
     = Return (Obj [(''x'', Num (num_of_int 9))])
   \<and> disc_match [(''kind'', Str ''toString''), (''x'', Num (num_of_int 1))] ''kind''
       [(''_'', Fn id)]
     = Called ''toString'' (Obj [(''x'', Num (num_of_int 1))])"
  by (simp add: disc_match_def disc_tag_def get_def disc_key_def disc_payload_def Let_def
      has_key_def slot_at_def inherited_def prototype_functions_def)

text \<open>
  C4 holds of the code only as long as the tag's key is not a name that every object
  inherits. With the tag \<^verbatim>\<open>"a"\<close> and the empty handler map the error is thrown, its
  message naming the field and the tag. With the tag \<^verbatim>\<open>"constructor"\<close> and the same
  empty map, which holds neither a handler for the tag nor a default, nothing is
  thrown: \<^verbatim>\<open>"constructor" in h\<close> is true and the code calls the inherited
  \<^verbatim>\<open>Object\<close> with the bare payload.
\<close>

theorem disc_match_inherited_no_throw:
  "disc_match [(''kind'', Str ''a''), (''x'', Num (num_of_int 1))] ''kind'' ([] :: string handlers)
     = Throw (Error ''match(): no handler for key=kind tag=a'')
   \<and> disc_match [(''kind'', Str ''constructor''), (''x'', Num (num_of_int 1))] ''kind''
       ([] :: string handlers)
     = Called ''constructor'' (Obj [(''x'', Num (num_of_int 1))])"
  by (simp add: disc_match_def disc_tag_def get_def disc_key_def disc_payload_def Let_def
      has_key_def slot_at_def inherited_def prototype_functions_def no_handler_def)

section \<open>Union matcher\<close>

lemma isEqual_empty: "isEqual v (Arr []) \<longleftrightarrow> v = Arr []"
  by (cases v) auto

lemma union_single:
  "union_tag (Obj [(k, p)]) = Str k" "tag_key (Obj [(k, p)]) = k" "union_payload (Obj [(k, p)]) = p"
  by (simp_all add: union_tag_def tag_key_def union_payload_def Object_keys_def get_def)

lemma slot_at_upper: "starts_upper k \<Longrightarrow> slot_at h k = map_of h k"
  by (simp add: slot_at_def inherited_upper split: option.splits)

text \<open>
  C5: for a record with the single field \<open>k\<close>, starting with an uppercase letter and
  holding \<open>p\<close>, \<^verbatim>\<open>me\<close> builds a variant, and \<^verbatim>\<open>match\<close> calls the handler stored under
  \<open>k\<close> with \<open>p\<close>; when nothing (or \<^verbatim>\<open>undefined\<close> or \<^verbatim>\<open>null\<close>) is stored under \<open>k\<close>
  it calls the default handler, again with \<open>p\<close> and not with the record. The
  discriminated matcher differs: whenever it falls to its default handler, because the
  tag is absent or \<^verbatim>\<open>in\<close> does not find its key, that handler receives the full record.
\<close>

theorem union_match_payload:
  assumes "starts_upper k"
  shows "me (Obj [(k, p)]) = matchableUnion (Obj [(k, p)])
   \<and> (map_of h k = Some (Fn f) \<longrightarrow> union_match (Obj [(k, p)]) h = Return (f p))
   \<and> ((map_of h k = None \<or> map_of h k = Some (Plain Undefined) \<or> map_of h k = Some (Plain Null))
        \<and> map_of h ''_'' = Some (Fn d)
      \<longrightarrow> union_match (Obj [(k, p)]) h = Return (d p))
   \<and> ((nullish (get r key) \<or> (to_key (disc_key (get r key)) = Some k' \<and> \<not> has_key h' k'))
        \<and> map_of h' ''_'' = Some (Fn d')
      \<longrightarrow> disc_match r key h' = Return (d' (Obj r)))"
proof (intro conjI impI)
  show "me (Obj [(k, p)]) = matchableUnion (Obj [(k, p)])"
    using assms by (simp add: me_def Object_keys_def)
next
  assume "map_of h k = Some (Fn f)"
  then show "union_match (Obj [(k, p)]) h = Return (f p)"
    by (simp add: union_match_def union_single slot_at_upper [OF assms])
next
  assume "(map_of h k = None \<or> map_of h k = Some (Plain Undefined) \<or> map_of h k = Some (Plain Null))
        \<and> map_of h ''_'' = Some (Fn d)"
  then show "union_match (Obj [(k, p)]) h = Return (d p)"
    by (auto simp: union_match_def union_single slot_at_upper [OF assms] slot_at_underscore)
next
  assume "(nullish (get r key) \<or> (to_key (disc_key (get r key)) = Some k' \<and> \<not> has_key h' k'))
        \<and> map_of h' ''_'' = Some (Fn d')"
  then show "disc_match r key h' = Return (d' (Obj r))"
    using disc_match_default [of r key k' h' d'] by blast
qed

text \<open>
  The repository's test on \<^verbatim>\<open>{Circle: {r: 2}}\<close>, with handlers that return their
  argument: the tag handler and the default handler both receive \<^verbatim>\<open>{r: 2}\<close>, while the
  discriminated default receives the whole record.
\<close>

theorem union_match_payload_witness:
  "starts_upper ''Circle''
   \<and> me (Obj [(''Circle'', Obj [(''r'', Num (num_of_int 2))])])
       = matchableUnion (Obj [(''Circle'', Obj [(''r'', Num (num_of_int 2))])])
   \<and> union_match (Obj [(''Circle'', Obj [(''r'', Num (num_of_int 2))])])
         [(''Circle'', Fn id), (''_'', Fn (K Null))]
       = Return (Obj [(''r'', Num (num_of_int 2))])
   \<and> union_match (Obj [(''Circle'', Obj [(''r'', Num (num_of_int 2))])]) [(''_'', Fn id)]
       = Return (Obj [(''r'', Num (num_of_int 2))])
   \<and> disc_match [(''kind'', Str ''a''), (''x'', Num (num_of_int 1))] ''kind'' [(''_'', Fn id)]
       = Return (Obj [(''kind'', Str ''a''), (''x'', Num (num_of_int 1))])"
proof -
  have up: "starts_upper ''Circle''" by simp
  have miss: "\<not> has_key [(''_'', Fn (id :: val \<Rightarrow> val))] ''a''"
    by (simp add: has_key_def inherited_def prototype_functions_def)
  show ?thesis
    using up miss
      union_match_payload [OF up, of "Obj [(''r'', Num (num_of_int 2))]"
        "[(''Circle'', Fn id), (''_'', Fn (K Null))]" id "K Null"
        "[(''kind'', Str ''a''), (''x'', Num (num_of_int 1))]" "''kind''" "''a''" "[(''_'', Fn id)]" id]
      union_match_payload [OF up, of "Obj [(''r'', Num (num_of_int 2))]"
        "[(''_'', Fn id)]" id id
        "[(''kind'', Str ''a''), (''x'', Num (num_of_int 1))]" "''kind''" "''a''" "[(''_'', Fn id)]" id]
    by (simp add: get_def disc_key_def)
qed

text \<open>
  C6: on a variant with tag \<open>k\<close> and payload \<open>p\<close>, the dispatcher of \<^verbatim>\<open>into()\<close>
  returns \<^verbatim>\<open>null\<close> without calling the handler exactly when \<open>p\<close> is \<^verbatim>\<open>null\<close>,
  \<^verbatim>\<open>undefined\<close> or deep-equal to the empty array, and the handler's result on \<open>p\<close>
  otherwise; the dispatcher of \<^verbatim>\<open>catch(...tags)\<close> returns \<^verbatim>\<open>null\<close> when \<open>k\<close> is not
  among the tags and behaves as that of \<^verbatim>\<open>into()\<close> when it is. Being deep-equal to the
  empty array is being the empty array.
\<close>

theorem union_into_catch:
  "union_into (Obj [(k, p)]) fn
     = (if p = Null \<or> p = Undefined \<or> isEqual p (Arr []) then None else Some (fn p))
   \<and> union_catch (Obj [(k, p)]) tags fn
     = (if k \<notin> set tags then None else union_into (Obj [(k, p)]) fn)
   \<and> (isEqual p (Arr []) \<longleftrightarrow> p = Arr [])"
  by (auto simp: union_into_def union_catch_def union_in_def union_single nullish_iff isEqual_empty)

text \<open>The repository's tests on \<^verbatim>\<open>Items\<close>; an empty record is not an empty array.\<close>

theorem union_into_catch_witness:
  "union_into (Obj [(''Items'', Arr [Num (num_of_int 1), Num (num_of_int 2)])]) (\<lambda>p. p)
     = Some (Arr [Num (num_of_int 1), Num (num_of_int 2)])
   \<and> union_into (Obj [(''Items'', Arr [])]) (\<lambda>p. p) = None
   \<and> union_into (Obj [(''Items'', Null)]) (\<lambda>p. p) = None
   \<and> union_into (Obj [(''Items'', Undefined)]) (\<lambda>p. p) = None
   \<and> union_into (Obj [(''Items'', Obj [])]) (\<lambda>p. p) = Some (Obj [])
   \<and> union_catch (Obj [(''Items'', Arr [Num (num_of_int 1), Num (num_of_int 2)])]) [''Items''] (\<lambda>p. p)
     = Some (Arr [Num (num_of_int 1), Num (num_of_int 2)])
   \<and> union_catch (Obj [(''Items'', Arr [Num (num_of_int 1), Num (num_of_int 2)])]) [''Other''] (\<lambda>p. p)
     = None
   \<and> union_catch (Obj [(''Items'', Arr [])]) [''Items''] (\<lambda>p. p) = None"
  using
    union_into_catch [of "''Items''" "Arr [Num (num_of_int 1), Num (num_of_int 2)]" "\<lambda>p. p" "[''Items'']"]
    union_into_catch [of "''Items''" "Arr [Num (num_of_int 1), Num (num_of_int 2)]" "\<lambda>p. p" "[''Other'']"]
    union_into_catch [of "''Items''" "Arr []" "\<lambda>p. p" "[''Items'']"]
    union_into_catch [of "''Items''" "Null" "\<lambda>p. p" "[''Items'']"]
    union_into_catch [of "''Items''" "Undefined" "\<lambda>p. p" "[''Items'']"]
    union_into_catch [of "''Items''" "Obj []" "\<lambda>p. p" "[''Items'']"]
  by simp

section \<open>Enum matcher\<close>

text \<open>The key of a scalar: the value itself, a boolean as a string.\<close>

lemma enum_key_scalar:
  assumes "v = Bool b \<and> key = (if b then ''true'' else ''false'') \<or> v = Str key
       \<or> (\<exists>n. v = Num n \<and> key = Number_toString n)"
  shows "Option.bind (if typeof v = ''boolean'' then map_option Str (to_key v) else Some v) to_key
           = Some key"
  using assms by auto

text \<open>A scalar with its own handler in the map: the handler receives the value.\<close>

lemma enum_match_hit:
  assumes "v = Bool b \<and> key = (if b then ''true'' else ''false'') \<or> v = Str key
       \<or> (\<exists>n. v = Num n \<and> key = Number_toString n)"
    and "map_of h key = Some (Fn f)"
  shows "enum_match v h = Return (f v)"
  unfolding enum_match_def Let_def enum_key_scalar [OF assms(1)]
  using assms(2) by (simp add: slot_at_own has_key_own)

text \<open>
  A scalar whose key \<^verbatim>\<open>in\<close> does not find in the map, own or inherited: the default
  handler receives the value.
\<close>

lemma enum_match_default:
  assumes "v = Bool b \<and> key = (if b then ''true'' else ''false'') \<or> v = Str key
       \<or> (\<exists>n. v = Num n \<and> key = Number_toString n)"
    and "\<not> has_key h key" and "map_of h ''_'' = Some (Fn d)"
  shows "enum_match v h = Return (d v)"
  unfolding enum_match_def Let_def enum_key_scalar [OF assms(1)]
  using assms(2,3) by (simp add: slot_at_underscore)

lemma key_of_small:
  "Number_toString (num_of_int 1) = ''1''" "Number_toString (num_of_int 2) = ''2''"
  by code_simp+

text \<open>
  Keys of numbers are what \<^verbatim>\<open>Number::toString\<close> prints: \<^verbatim>\<open>1e21\<close> is looked up under
  \<^verbatim>\<open>"1e+21"\<close>, one half under \<^verbatim>\<open>"0.5"\<close>.
\<close>

lemma key_of_large:
  "Number_toString (Finite False 1 22) = ''1e+21''" "Number_toString (Finite False 5 0) = ''0.5''"
  by code_simp+

lemma enum_match_large:
  "enum_match (Num (Finite False 1 22)) [(''1e+21'', Fn (K ''big'')), (''_'', Fn (K ''other''))]
     = Return ''big''"
  by code_simp

text \<open>
  C7 holds of the code only as long as the scalar's key is not a name that every object
  inherits. The two examples of the spec come out as it says: \<^verbatim>\<open>2\<close> against
  \<^verbatim>\<open>{1: ..., 2: ..., _: ...}\<close> gives \<^verbatim>\<open>"two"\<close>, and \<^verbatim>\<open>1\<close> against
  \<^verbatim>\<open>{2: ..., _: ...}\<close> gives \<^verbatim>\<open>"other"\<close>. With the scalar \<^verbatim>\<open>"toString"\<close> and the
  handler map \<^verbatim>\<open>{_: d}\<close> the key is not a handler of the map, yet
  \<^verbatim>\<open>"toString" in h\<close> is true: the code calls \<^verbatim>\<open>Object.prototype.toString\<close> with
  the value and the default handler is never called.
\<close>

theorem enum_match_inherited_key:
  "enum_match (Num (num_of_int 2))
       [(''1'', Fn (K ''one'')), (''2'', Fn (K ''two'')), (''_'', Fn (K ''other''))]
     = Return ''two''
   \<and> enum_match (Num (num_of_int 1)) [(''2'', Fn (K ''two'')), (''_'', Fn (K ''other''))]
     = Return ''other''
   \<and> enum_match (Str ''toString'') [(''_'', Fn (K ''other''))]
     = Called ''toString'' (Str ''toString'')"
  by (simp add: enum_match_def key_of_small has_key_def slot_at_def inherited_def
      prototype_functions_def K_def)

section \<open>Object matcher\<close>

lemma map_of_define_prop: "map_of (define_prop kvs k x) = (map_of kvs)(k \<mapsto> x)"
  by (induction kvs) (auto simp: fun_eq_iff)

lemma keys_define_prop: "fst ` set (define_prop kvs k x) = insert k (fst ` set kvs)"
proof -
  have "dom (map_of (define_prop kvs k x)) = insert k (dom (map_of kvs))"
    unfolding map_of_define_prop by simp
  then show ?thesis
    by (simp only: dom_map_of_conv_image_fst)
qed

lemma distinct_define_prop:
  "distinct (map fst kvs) \<Longrightarrow> distinct (map fst (define_prop kvs k x))"
  by (induction kvs) (auto simp: keys_define_prop)

lemma keys_pick: "fst ` set (pick v ks acc) = fst ` set acc \<union> (set ks - {''__proto__''})"
  by (induction ks arbitrary: acc) (auto simp: set_prop_def keys_define_prop)

lemma distinct_pick: "distinct (map fst acc) \<Longrightarrow> distinct (map fst (pick v ks acc))"
  by (induction ks arbitrary: acc) (simp_all add: set_prop_def distinct_define_prop)

lemma map_of_pick:
  "map_of (pick v ks acc) k
     = (if k \<in> set ks \<and> k \<noteq> ''__proto__'' then Some (get v k) else map_of acc k)"
  by (induction ks arbitrary: acc) (auto simp: set_prop_def map_of_define_prop)

lemma obj_catch_None:
  "obj_catch v ks fn = None \<longleftrightarrow> (\<exists>k\<in>set ks. get v k = Null \<or> get v k = Undefined)"
  by (auto simp: obj_catch_def list_ex_iff nullish_iff)

text \<open>
  Away from the key \<^verbatim>\<open>__proto__\<close> the dispatcher of \<^verbatim>\<open>catch\<close> does what C8 and C10
  say: \<^verbatim>\<open>null\<close> exactly when some named key reads as \<^verbatim>\<open>null\<close> or \<^verbatim>\<open>undefined\<close>,
  and otherwise the handler's result on a record that has exactly the named keys, each
  once, each with the value read from the wrapped record.
\<close>

lemma obj_catch_picks:
  assumes "''__proto__'' \<notin> set keys"
  shows "(obj_catch v keys fn = None \<longleftrightarrow> (\<exists>k\<in>set keys. get v k = Null \<or> get v k = Undefined))
   \<and> ((\<forall>k\<in>set keys. get v k \<noteq> Null \<and> get v k \<noteq> Undefined) \<longrightarrow>
        obj_catch v keys fn = Some (fn (Obj (pick v keys [])))
        \<and> set (Object_keys (Obj (pick v keys []))) = set keys
        \<and> distinct (Object_keys (Obj (pick v keys [])))
        \<and> (\<forall>k\<in>set keys. map_of (pick v keys []) k = Some (get v k)))
   \<and> obj_catch v [] fn = Some (fn (Obj []))"
proof (intro conjI impI)
  show "obj_catch v keys fn = None \<longleftrightarrow> (\<exists>k\<in>set keys. get v k = Null \<or> get v k = Undefined)"
    by (rule obj_catch_None)
next
  assume present: "\<forall>k\<in>set keys. get v k \<noteq> Null \<and> get v k \<noteq> Undefined"
  then have "obj_catch v keys fn \<noteq> None"
    by (simp add: obj_catch_None)
  then show "obj_catch v keys fn = Some (fn (Obj (pick v keys [])))"
    by (simp add: obj_catch_def split: if_splits)
next
  show "set (Object_keys (Obj (pick v keys []))) = set keys"
    using assms by (simp add: Object_keys_def keys_pick)
next
  show "distinct (Object_keys (Obj (pick v keys [])))"
    by (simp add: Object_keys_def distinct_pick)
next
  show "\<forall>k\<in>set keys. map_of (pick v keys []) k = Some (get v k)"
    using assms by (auto simp: map_of_pick)
next
  show "obj_catch v [] fn = Some (fn (Obj []))"
    by (simp add: obj_catch_def)
qed

text \<open>
  C8 fails on the code at the key \<^verbatim>\<open>__proto__\<close>. On \<^verbatim>\<open>{a:1, b:2, c:3}\<close> caught on
  \<^verbatim>\<open>a, b\<close> the handler receives \<^verbatim>\<open>{a:1, b:2}\<close>, a missing \<^verbatim>\<open>b\<close> gives \<^verbatim>\<open>null\<close>,
  and \<^verbatim>\<open>catch()\<close> hands over the empty record. On a record with the own properties
  \<^verbatim>\<open>__proto__\<close> and \<^verbatim>\<open>a\<close>, as \<^verbatim>\<open>JSON.parse\<close> builds it, caught on both keys,
  neither value is absent, yet the assignment \<^verbatim>\<open>picked["__proto__"] = 5\<close> runs the
  inherited setter and the handler receives \<^verbatim>\<open>{a:1}\<close>, not a record with exactly the
  named keys.
\<close>

theorem obj_catch_proto_dropped:
  "obj_catch [(''a'', Num (num_of_int 1)), (''b'', Num (num_of_int 2)), (''c'', Num (num_of_int 3))]
       [''a'', ''b''] id
     = Some (Obj [(''a'', Num (num_of_int 1)), (''b'', Num (num_of_int 2))])
   \<and> obj_catch [(''a'', Num (num_of_int 1)), (''b'', Undefined)] [''a'', ''b''] id = None
   \<and> obj_catch [(''a'', Num (num_of_int 1)), (''b'', Num (num_of_int 2))] [] id = Some (Obj [])
   \<and> obj_catch [(''__proto__'', Num (num_of_int 5)), (''a'', Num (num_of_int 1))]
       [''__proto__'', ''a''] id
     = Some (Obj [(''a'', Num (num_of_int 1))])"
  by (simp add: obj_catch_def get_def set_prop_def inherited_def prototype_functions_def)

text \<open>
  C10 fails on the code at the key \<^verbatim>\<open>__proto__\<close>, by the same assignment as C8. On a
  record holding \<^verbatim>\<open>0\<close>, \<^verbatim>\<open>false\<close> and \<^verbatim>\<open>""\<close> the handler is called and receives
  those values. On a record whose own property \<^verbatim>\<open>__proto__\<close> holds \<^verbatim>\<open>0\<close>, caught on
  that key, the handler is called, as the claim says, but receives the empty record:
  the value is not in the sub-record.
\<close>

theorem obj_catch_falsy_proto:
  "obj_catch [(''n'', Num (num_of_int 0)), (''b'', Bool False), (''s'', Str []), (''z'', Null)]
       [''n'', ''b'', ''s''] id
     = Some (Obj [(''n'', Num (num_of_int 0)), (''b'', Bool False), (''s'', Str [])])
   \<and> obj_catch [(''n'', Num (num_of_int 0)), (''z'', Null)] [''n'', ''z''] id = None
   \<and> obj_catch [(''__proto__'', Num (num_of_int 0))] [''__proto__''] id = Some (Obj [])"
  by (simp add: obj_catch_def get_def set_prop_def inherited_def prototype_functions_def)

section \<open>The wrapped record is never written\<close>

lemma st_disc_payload_eq:
  "st_disc_payload s obj key =
     (Ref (fresh s),
      s\<lparr>heap := (heap s)(fresh s \<mapsto> filter (\<lambda>kv. fst kv \<noteq> key) (st_own_props s obj)),
        fresh := Suc (fresh s)\<rparr>)"
  by (simp add: st_disc_payload_def st_spread_def)

lemma st_disc_payload_frame:
  assumes "a < fresh s"
  shows "heap (snd (st_disc_payload s obj key)) a = heap s a"
    and "a < fresh (snd (st_disc_payload s obj key))"
  using assms by (simp_all add: st_disc_payload_eq)

lemma st_disc_match_frame:
  assumes "a < fresh s"
  shows "heap (snd (st_disc_match s m h)) a = heap s a
         \<and> a < fresh (snd (st_disc_match s m h))"
  using assms st_disc_payload_frame [OF assms, of "m_value m" "m_key m"]
  by (simp add: st_disc_match_def Let_def split_beta split: option.splits)

lemma st_disc_into_frame:
  assumes "a < fresh s"
  shows "heap (snd (st_disc_into s m fn)) a = heap s a
         \<and> a < fresh (snd (st_disc_into s m fn))"
  using assms st_disc_payload_frame [OF assms, of "m_value m" "m_key m"]
  by (simp add: st_disc_into_def split_beta)

lemma st_disc_catch_frame:
  assumes "a < fresh s"
  shows "heap (snd (st_disc_catch s m arr fn)) a = heap s a
         \<and> a < fresh (snd (st_disc_catch s m arr fn))"
  using assms st_disc_payload_frame [OF assms, of "m_value m" "m_key m"]
  by (simp add: st_disc_catch_def split_beta)

lemma st_call_frame:
  assumes "a < fresh s"
  shows "heap (st_call s m c) a = heap s a \<and> a < fresh (st_call s m c)"
proof (cases c)
  case (Match h)
  then show ?thesis using st_disc_match_frame [OF assms] by simp
next
  case (Into fn)
  then show ?thesis using st_disc_into_frame [OF assms] by simp
next
  case (Catch arr fn)
  then show ?thesis using st_disc_catch_frame [OF assms] by simp
qed

lemma st_calls_frame:
  "a < fresh s \<Longrightarrow> heap (st_calls s m cs) a = heap s a \<and> a < fresh (st_calls s m cs)"
proof (induction cs arbitrary: s)
  case Nil
  then show ?case by simp
next
  case (Cons c cs)
  from Cons.prems have step: "heap (st_call s m c) a = heap s a" "a < fresh (st_call s m c)"
    using st_call_frame [of a s m c] by simp_all
  from Cons.IH [OF step(2)] step(1) show ?case by simp
qed

text \<open>
  C9: no operation of a discriminated matcher writes to a record that exists when it is
  called. After any sequence of \<^verbatim>\<open>match\<close>, \<^verbatim>\<open>into\<close> and \<^verbatim>\<open>catch\<close> calls, with any
  handlers and arguments, an allocated record \<open>a\<close> (the wrapped record in particular)
  has the same properties, its discriminant among them, with the same values. The bare
  payload is a new record at a fresh address: a shallow copy of the wrapped record's
  properties from which the discriminant was deleted.
\<close>

theorem disc_calls_keep_record:
  assumes "a < fresh s"
  shows "heap (st_calls s m cs) a = heap s a
     \<and> st_own_props (st_calls s m cs) (Ref a) = st_own_props s (Ref a)
     \<and> (\<forall>k. st_get (st_calls s m cs) (Ref a) k = st_get s (Ref a) k)
     \<and> fst (st_disc_payload s v key) = Ref (fresh s)
     \<and> heap (snd (st_disc_payload s v key)) (fresh s)
         = Some (filter (\<lambda>kv. fst kv \<noteq> key) (st_own_props s v))"
proof -
  have "heap (st_calls s m cs) a = heap s a"
    using st_calls_frame [OF assms, of m cs] by simp
  then show ?thesis
    by (simp add: st_disc_payload_eq st_get_def)
qed

text \<open>
  \<^verbatim>\<open>{kind:"a", x:1}\<close> at address 0: after a \<^verbatim>\<open>match\<close>, an \<^verbatim>\<open>into\<close> and a
  \<^verbatim>\<open>catch\<close> it is as before, and the handler of \<^verbatim>\<open>match\<close> was given the new record
  at address 1, which holds \<^verbatim>\<open>x\<close> only.
\<close>

theorem disc_calls_keep_record_witness:
  "(0::nat) < fresh \<lparr>heap = Map.empty(0 \<mapsto> [(''kind'', Imm (Str ''a'')), (''x'', Imm (Num (num_of_int 1)))]), fresh = 1\<rparr>
   \<and> heap (st_calls \<lparr>heap = Map.empty(0 \<mapsto> [(''kind'', Imm (Str ''a'')), (''x'', Imm (Num (num_of_int 1)))]), fresh = 1\<rparr>
           \<lparr>m_key = ''kind'', m_value = Ref 0, m_tag = Imm (Str ''a'')\<rparr>
           [Match [(''a'', StFn (\<lambda>p s. st_own_props s p))],
            Into (\<lambda>p s. st_own_props s p),
            Catch [Imm (Str ''a'')] (\<lambda>p s. st_own_props s p)]) 0
       = Some [(''kind'', Imm (Str ''a'')), (''x'', Imm (Num (num_of_int 1)))]
   \<and> st_matchableDisc \<lparr>heap = Map.empty(0 \<mapsto> [(''kind'', Imm (Str ''a'')), (''x'', Imm (Num (num_of_int 1)))]), fresh = 1\<rparr>
           (Ref 0) ''kind''
       = \<lparr>m_key = ''kind'', m_value = Ref 0, m_tag = Imm (Str ''a'')\<rparr>
   \<and> fst (st_disc_match \<lparr>heap = Map.empty(0 \<mapsto> [(''kind'', Imm (Str ''a'')), (''x'', Imm (Num (num_of_int 1)))]), fresh = 1\<rparr>
           \<lparr>m_key = ''kind'', m_value = Ref 0, m_tag = Imm (Str ''a'')\<rparr>
           [(''a'', StFn (\<lambda>p s. (p, st_own_props s p)))])
       = Return (Ref 1, [(''x'', Imm (Num (num_of_int 1)))])"
proof -
  let ?s = "\<lparr>heap = Map.empty(0 \<mapsto> [(''kind'', Imm (Str ''a'')), (''x'', Imm (Num (num_of_int 1)))]), fresh = 1\<rparr>"
  let ?m = "\<lparr>m_key = ''kind'', m_value = Ref 0, m_tag = Imm (Str ''a'')\<rparr>"
  have alloc: "(0::nat) < fresh ?s" by simp
  have built: "st_matchableDisc ?s (Ref 0) ''kind'' = ?m"
    by (simp add: st_matchableDisc_def st_get_def)
  have "fst (st_disc_match ?s ?m [(''a'', StFn (\<lambda>p s. (p, st_own_props s p)))])
       = Return (Ref 1, [(''x'', Imm (Num (num_of_int 1)))])"
    by (simp add: st_disc_match_def st_disc_payload_eq has_key_def st_slot_at_def Let_def disc_key_def)
  with built show ?thesis
    using alloc disc_calls_keep_record [OF alloc, of ?m
        "[Match [(''a'', StFn (\<lambda>p s. st_own_props s p))], Into (\<lambda>p s. st_own_props s p),
          Catch [Imm (Str ''a'')] (\<lambda>p s. st_own_props s p)]"]
    by simp
qed

subsection \<open>Agreement of the two models\<close>

lemma st_slot_at_lift: "st_slot_at (lift_handlers h) k = map_option lift_slot (slot_at h k)"
proof -
  have "map_of (lift_handlers h) k = map_option lift_slot (map_of h k)"
    by (induction h) (auto simp: lift_handlers_def)
  then show ?thesis
    by (simp add: st_slot_at_def slot_at_def option.map_comp comp_def split: option.splits)
qed

lemma has_key_lift: "has_key (lift_handlers h) k = has_key h k"
  by (simp add: has_key_def lift_handlers_def comp_def)

lemma truthy_lift: "st_truthy_slot (map_option lift_slot x) = truthy_slot x"
  by (cases x rule: truthy_slot.cases) simp_all

lemma invoke_lift:
  "read_outcome s (st_invoke (map_option lift_slot x) p s) = invoke x (read1 s p)"
proof (cases x rule: truthy_slot.cases)
  case (2 v)
  then show ?thesis by (cases v) simp_all
qed simp_all

lemma read1_payload:
  "read1 (snd (st_disc_payload s (Imm (Obj r)) key)) (fst (st_disc_payload s (Imm (Obj r)) key))
     = disc_payload r key"
  by (simp add: st_disc_payload_eq disc_payload_def filter_map comp_def)

lemma map_of_Imm: "map_of (map (\<lambda>kv. (fst kv, Imm (snd kv))) r) k = map_option Imm (map_of r k)"
  by (induction r) auto

lemma st_get_record: "st_get s (Imm (Obj r)) k = Imm (get r k)"
  by (simp add: st_get_def get_def map_of_Imm split: option.splits)

text \<open>
  On a record held as an immediate value, the \<^verbatim>\<open>match\<close> of the store model comes to
  what the \<^verbatim>\<open>match\<close> of the first model comes to.
\<close>

lemma st_disc_match_agrees:
  "read_outcome (snd (st_disc_match s (st_matchableDisc s (Imm (Obj r)) key) (lift_handlers h)))
       (fst (st_disc_match s (st_matchableDisc s (Imm (Obj r)) key) (lift_handlers h)))
     = disc_match r key h"
  unfolding st_disc_match_def disc_match_def st_matchableDisc_def disc_tag_def Let_def
  using read1_payload [of s r key]
  by (auto simp: st_get_record has_key_lift st_slot_at_lift truthy_lift invoke_lift split_beta
      split: option.splits)

end
